theory Spec2Isabelle
  imports Complex_Main "HOL-Library.AList"
begin

section \<open>Numbers, colours and Python primitives\<close>

text \<open>
  The backend computes with Python \<open>int\<close> (unbounded) and \<open>float\<close>. Integers are
  modelled by \<open>int\<close>; every \<open>float\<close> (normalised velocities, scale factors, brightness,
  wall-clock times and durations) is modelled by an exact rational number, so
  \<open>velocity / 127.0\<close> is the fraction itself and the literals \<open>0.3\<close>, \<open>0.5\<close>, ... are
  \<open>3/10\<close>, \<open>1/2\<close>, ... . The hardware branch (\<open>RASPBERRY_PI\<close>), logging and the locks
  have no effect on the values computed and are left out.
\<close>

type_synonym color = "int \<times> int \<times> int"

text \<open>Python's \<open>int(x)\<close> on a float: truncation towards zero.\<close>

definition py_int :: "rat \<Rightarrow> int" where
  "py_int x = (if x < 0 then - \<lfloor>- x\<rfloor> else \<lfloor>x\<rfloor>)"

text \<open>\<open>tuple(int(c * f) for c in color)\<close>.\<close>

definition scale_color :: "color \<Rightarrow> rat \<Rightarrow> color" where
  "scale_color c f =
     (case c of (r, g, b) \<Rightarrow> (py_int (of_int r * f), py_int (of_int g * f), py_int (of_int b * f)))"

datatype py_error = ZeroDivisionError | IndexError

section \<open>ColorManager\<close>

subsection \<open>The velocity scheme\<close>

text \<open>The two branches of \<open>_velocity_scheme\<close>, as functions of \<open>velocity_norm\<close>.\<close>

definition velocity_blue_to_cyan :: "rat \<Rightarrow> color" where
  "velocity_blue_to_cyan velocity_norm =
     (let factor = velocity_norm * 2 in (0, py_int (factor * 255), 255))"

definition velocity_cyan_to_red :: "rat \<Rightarrow> color" where
  "velocity_cyan_to_red velocity_norm =
     (let factor = (velocity_norm - 1 / 2) * 2
      in (py_int (factor * 255), py_int ((1 - factor) * 255), py_int ((1 - factor) * 255)))"

definition velocity_scheme :: "int \<Rightarrow> int \<Rightarrow> color" where
  "velocity_scheme note velocity =
     (let velocity_norm = of_int velocity / 127
      in if velocity_norm < 1 / 2 then velocity_blue_to_cyan velocity_norm
         else velocity_cyan_to_red velocity_norm)"

subsection \<open>The rainbow scheme\<close>

text \<open>
  \<open>colorsys.hsv_to_rgb\<close> of the Python standard library, which \<open>_rainbow_scheme\<close> calls.
\<close>

definition hsv_to_rgb :: "rat \<Rightarrow> rat \<Rightarrow> rat \<Rightarrow> rat \<times> rat \<times> rat" where
  "hsv_to_rgb h s v =
     (if s = 0 then (v, v, v)
      else
        let i = py_int (h * 6);
            f = h * 6 - of_int i;
            p = v * (1 - s);
            q = v * (1 - s * f);
            t = v * (1 - s * (1 - f));
            i = i mod 6
        in if i = 0 then (v, t, p)
           else if i = 1 then (q, v, p)
           else if i = 2 then (p, v, t)
           else if i = 3 then (p, q, v)
           else if i = 4 then (t, p, v)
           else (v, p, q))"

definition rainbow_scheme :: "int \<Rightarrow> int \<Rightarrow> color" where
  "rainbow_scheme note velocity =
     (let hue = of_int (note - 21) / 87;
          saturation = 1;
          val = of_int velocity / 127
      in case hsv_to_rgb hue saturation val of
           (r, g, b) \<Rightarrow> (py_int (r * 255), py_int (g * 255), py_int (b * 255)))"

subsection \<open>The note-based and white-keys schemes\<close>

definition note_colors :: "color list" where
  "note_colors =
     [(255, 0, 0), (255, 127, 0), (255, 165, 0), (255, 215, 0), (255, 255, 0), (127, 255, 0),
      (0, 255, 0), (0, 255, 127), (0, 255, 255), (0, 127, 255), (0, 0, 255), (127, 0, 255)]"

definition note_based_scheme :: "int \<Rightarrow> int \<Rightarrow> color" where
  "note_based_scheme note velocity =
     (let note_class = note mod 12;
          base_color = note_colors ! nat note_class;
          velocity_factor = of_int velocity / 127
      in scale_color base_color velocity_factor)"

definition black_keys :: "int list" where
  "black_keys = [1, 3, 6, 8, 10]"

definition white_keys_scheme :: "int \<Rightarrow> int \<Rightarrow> color" where
  "white_keys_scheme note velocity =
     (let note_class = note mod 12;
          velocity_factor = of_int velocity / 127
      in if note_class \<in> set black_keys then (0, 0, py_int (255 * velocity_factor))
         else let intensity = py_int (255 * velocity_factor) in (intensity, intensity, intensity))"

subsection \<open>The fire and ocean schemes\<close>

text \<open>The three branches of \<open>_fire_scheme\<close>, as functions of \<open>velocity_norm\<close>.\<close>

definition fire_dark_red :: "rat \<Rightarrow> color" where
  "fire_dark_red velocity_norm = (py_int (139 * velocity_norm / (3 / 10)), 0, 0)"

definition fire_red_to_orange :: "rat \<Rightarrow> color" where
  "fire_red_to_orange velocity_norm =
     (let factor = (velocity_norm - 3 / 10) / (4 / 10) in (255, py_int (165 * factor), 0))"

definition fire_orange_to_yellow :: "rat \<Rightarrow> color" where
  "fire_orange_to_yellow velocity_norm =
     (let factor = (velocity_norm - 7 / 10) / (3 / 10)
      in (255, py_int (165 + 90 * factor), py_int (255 * factor)))"

definition fire_scheme :: "int \<Rightarrow> int \<Rightarrow> color" where
  "fire_scheme note velocity =
     (let velocity_norm = of_int velocity / 127
      in if velocity_norm < 3 / 10 then fire_dark_red velocity_norm
         else if velocity_norm < 7 / 10 then fire_red_to_orange velocity_norm
         else fire_orange_to_yellow velocity_norm)"

text \<open>The three branches of \<open>_ocean_scheme\<close>.\<close>

definition ocean_dark_blue :: "rat \<Rightarrow> color" where
  "ocean_dark_blue velocity_norm =
     (let intensity = velocity_norm / (4 / 10) in (0, 0, py_int (139 * intensity)))"

definition ocean_blue_to_cyan :: "rat \<Rightarrow> color" where
  "ocean_blue_to_cyan velocity_norm =
     (let factor = (velocity_norm - 4 / 10) / (4 / 10) in (0, py_int (255 * factor), 255))"

definition ocean_cyan_to_white :: "rat \<Rightarrow> color" where
  "ocean_cyan_to_white velocity_norm =
     (let factor = (velocity_norm - 8 / 10) / (2 / 10);
          blue_green = py_int (255 - 55 * factor)
      in (py_int (255 * factor), blue_green, blue_green))"

definition ocean_scheme :: "int \<Rightarrow> int \<Rightarrow> color" where
  "ocean_scheme note velocity =
     (let velocity_norm = of_int velocity / 127
      in if velocity_norm < 4 / 10 then ocean_dark_blue velocity_norm
         else if velocity_norm < 8 / 10 then ocean_blue_to_cyan velocity_norm
         else ocean_cyan_to_white velocity_norm)"

subsection \<open>Scheme registry\<close>

definition color_schemes :: "(string \<times> (int \<Rightarrow> int \<Rightarrow> color)) list" where
  "color_schemes =
     [(''rainbow'', rainbow_scheme), (''velocity'', velocity_scheme),
      (''note_based'', note_based_scheme), (''white_keys'', white_keys_scheme),
      (''fire'', fire_scheme), (''ocean'', ocean_scheme)]"

definition get_color :: "string \<Rightarrow> int \<Rightarrow> int \<Rightarrow> color" where
  "get_color current_scheme note velocity =
     (case map_of color_schemes current_scheme of
        Some scheme \<Rightarrow> scheme note velocity
      | None \<Rightarrow> velocity_scheme note velocity)"

definition set_scheme :: "string \<Rightarrow> string \<Rightarrow> bool \<times> string" where
  "set_scheme scheme_name current_scheme =
     (if scheme_name \<in> set (map fst color_schemes) then (True, scheme_name)
      else (False, current_scheme))"

text \<open>The largest per-channel distance between two colours.\<close>

definition max_channel_diff :: "color \<Rightarrow> color \<Rightarrow> int" where
  "max_channel_diff c1 c2 =
     (case c1 of (r1, g1, b1) \<Rightarrow> case c2 of (r2, g2, b2) \<Rightarrow>
        max \<bar>r1 - r2\<bar> (max \<bar>g1 - g2\<bar> \<bar>b1 - b2\<bar>))"

section \<open>Python lists and dictionaries\<close>

text \<open>
  A \<open>dict\<close> is an association list in insertion order: \<open>d[k] = v\<close> is \<open>AList.update\<close>
  (an existing key keeps its place, a new key goes last), \<open>del d[k]\<close> is \<open>AList.delete\<close>,
  \<open>k in d\<close> and \<open>d[k]\<close> read \<open>map_of\<close>. List indexing follows Python: a negative index
  counts from the end, anything else out of range raises \<open>IndexError\<close>.
\<close>

definition py_index :: "'a list \<Rightarrow> int \<Rightarrow> nat option" where
  "py_index xs i =
     (if 0 \<le> i \<and> i < int (length xs) then Some (nat i)
      else if i < 0 \<and> - int (length xs) \<le> i then Some (nat (int (length xs) + i))
      else None)"

definition py_getitem :: "'a list \<Rightarrow> int \<Rightarrow> py_error + 'a" where
  "py_getitem xs i = (case py_index xs i of None \<Rightarrow> Inl IndexError | Some k \<Rightarrow> Inr (xs ! k))"

definition py_setitem :: "'a list \<Rightarrow> int \<Rightarrow> 'a \<Rightarrow> py_error + 'a list" where
  "py_setitem xs i v = (case py_index xs i of None \<Rightarrow> Inl IndexError | Some k \<Rightarrow> Inr (xs[k := v]))"

text \<open>
  A run of item assignments \<open>leds[i] = c\<close>; the first \<open>IndexError\<close> ends it and the
  assignments made before stay.
\<close>

fun assign_leds :: "(int \<times> color) list \<Rightarrow> color list \<Rightarrow> color list \<times> py_error option" where
  "assign_leds [] leds = (leds, None)"
| "assign_leds ((i, c) # rest) leds =
     (case py_setitem leds i c of
        Inl e \<Rightarrow> (leds, Some e)
      | Inr leds' \<Rightarrow> assign_leds rest leds')"

section \<open>LEDAnimator\<close>

record animation =
  anim_type :: string
  led_index :: int
  start_color :: color
  start_time :: rat
  duration :: rat

text \<open>\<open>active_animations\<close>: the dictionary from note to animation data.\<close>

type_synonym animations = "(int \<times> animation) list"

text \<open>\<open>add_fade_out\<close>; \<open>now\<close> is the value of \<open>time.time()\<close> at the call.\<close>

definition add_fade_out :: "rat \<Rightarrow> int \<Rightarrow> int \<Rightarrow> color \<Rightarrow> rat \<Rightarrow> animations \<Rightarrow> animations" where
  "add_fade_out now note led_idx initial_color fade_time anims =
     AList.update note
       \<lparr>anim_type = ''fade_out'', led_index = led_idx, start_color = initial_color,
        start_time = now, duration = fade_time\<rparr> anims"

definition remove_animation :: "int \<Rightarrow> animations \<Rightarrow> animations" where
  "remove_animation note anims =
     (if map_of anims note \<noteq> None then AList.delete note anims else anims)"

text \<open>
  The loop of \<open>get_current_colors\<close> over \<open>active_animations.items()\<close>, threading
  \<open>animations_to_remove\<close> and \<open>current_colors\<close>. The division \<open>elapsed / duration\<close> raises
  \<open>ZeroDivisionError\<close> on a zero duration.
\<close>

fun animation_loop ::
  "rat \<Rightarrow> animations \<Rightarrow> int list \<Rightarrow> (int \<times> color) list \<Rightarrow>
     py_error + (int list \<times> (int \<times> color) list)" where
  "animation_loop current_time [] to_remove current_colors = Inr (to_remove, current_colors)"
| "animation_loop current_time ((note, anim_data) # rest) to_remove current_colors =
     (if anim_type anim_data = ''fade_out'' then
        let elapsed = current_time - start_time anim_data
        in if duration anim_data = 0 then Inl ZeroDivisionError
           else
             let progress = elapsed / duration anim_data
             in if progress \<ge> 1 then
                  animation_loop current_time rest (to_remove @ [note])
                    (AList.update (led_index anim_data) (0, 0, 0) current_colors)
                else
                  let factor = 1 - progress;
                      faded_color = scale_color (start_color anim_data) factor
                  in animation_loop current_time rest to_remove
                       (AList.update (led_index anim_data) faded_color current_colors)
      else animation_loop current_time rest to_remove current_colors)"

text \<open>
  \<open>get_current_colors\<close> at time \<open>current_time\<close>: the colours by LED index and the
  animation table after the completed animations are deleted. An exception leaves
  the table as it was.
\<close>

definition get_current_colors ::
  "rat \<Rightarrow> animations \<Rightarrow> py_error + ((int \<times> color) list \<times> animations)" where
  "get_current_colors current_time anims =
     (case animation_loop current_time anims [] [] of
        Inl e \<Rightarrow> Inl e
      | Inr (animations_to_remove, current_colors) \<Rightarrow>
          Inr (current_colors, fold AList.delete animations_to_remove anims))"


section \<open>LEDController\<close>

record led_config =
  num_leds :: int
  pin :: int
  brightness :: rat
  auto_write :: bool
  pixel_order :: string

record led_controller =
  config :: led_config
  is_initialized :: bool
  current_scheme :: string
  active_animations :: animations
  note_to_led_map :: "(int \<times> int) list"
  current_led_state :: "color list"
  commands_processed :: int
  last_update_time :: rat
  update_frequency :: rat

text \<open>
  A method call either returns a value or raises; both leave a controller state behind.
\<close>

datatype 'a outcome = Returns 'a led_controller | Raises py_error led_controller

fun state_after :: "'a outcome \<Rightarrow> led_controller" where
  "state_after (Returns x s) = s"
| "state_after (Raises e s) = s"

definition create_note_to_led_mapping :: "int \<Rightarrow> (int \<times> int) list" where
  "create_note_to_led_mapping n =
     fold (\<lambda>(i, note) mapping. if i < n then AList.update note i mapping else mapping)
       (zip [0..87] [21..108]) []"

text \<open>\<open>LEDController.__init__\<close>.\<close>

definition new_controller :: "led_config \<Rightarrow> led_controller" where
  "new_controller cfg =
     \<lparr>config = cfg, is_initialized = False, current_scheme = ''velocity'',
      active_animations = [], note_to_led_map = create_note_to_led_mapping (num_leds cfg),
      current_led_state = replicate (nat (num_leds cfg)) (0, 0, 0),
      commands_processed = 0, last_update_time = 0, update_frequency = 0\<rparr>"

definition set_led_color :: "int \<Rightarrow> color \<Rightarrow> led_controller \<Rightarrow> unit outcome" where
  "set_led_color led_idx color s =
     (if led_idx < 0 \<or> led_idx \<ge> num_leds (config s) then Returns () s
      else case py_setitem (current_led_state s) led_idx color of
             Inl e \<Rightarrow> Raises e s
           | Inr leds \<Rightarrow> Returns () (s\<lparr>current_led_state := leds\<rparr>))"

definition note_on :: "int \<Rightarrow> int \<Rightarrow> led_controller \<Rightarrow> bool outcome" where
  "note_on note velocity s =
     (if \<not> is_initialized s then Returns False s
      else case map_of (note_to_led_map s) note of
        None \<Rightarrow> Returns False s
      | Some led_idx \<Rightarrow>
          let color = get_color (current_scheme s) note velocity;
              s1 = s\<lparr>active_animations := remove_animation note (active_animations s)\<rparr>
          in case set_led_color led_idx color s1 of
               Raises e s2 \<Rightarrow> Raises e s2
             | Returns _ s2 \<Rightarrow>
                 Returns True (s2\<lparr>commands_processed := commands_processed s2 + 1\<rparr>))"

text \<open>\<open>note_off\<close>; \<open>now\<close> is the clock read by \<open>add_fade_out\<close>.\<close>

definition note_off :: "rat \<Rightarrow> int \<Rightarrow> rat \<Rightarrow> led_controller \<Rightarrow> bool outcome" where
  "note_off now note fade_time s =
     (if \<not> is_initialized s then Returns False s
      else case map_of (note_to_led_map s) note of
        None \<Rightarrow> Returns False s
      | Some led_idx \<Rightarrow>
          (case py_getitem (current_led_state s) led_idx of
             Inl e \<Rightarrow> Raises e s
           | Inr current_color \<Rightarrow>
               (case (if fade_time > 0
                      then Returns ()
                             (s\<lparr>active_animations :=
                                  add_fade_out now note led_idx current_color fade_time
                                    (active_animations s)\<rparr>)
                      else set_led_color led_idx (0, 0, 0) s) of
                  Raises e s2 \<Rightarrow> Raises e s2
                | Returns _ s2 \<Rightarrow>
                    Returns True (s2\<lparr>commands_processed := commands_processed s2 + 1\<rparr>))))"

definition update_display :: "rat \<Rightarrow> led_controller \<Rightarrow> unit outcome" where
  "update_display current_time s =
     (if \<not> is_initialized s then Returns () s
      else case get_current_colors current_time (active_animations s) of
        Inl e \<Rightarrow> Raises e s
      | Inr (animated_colors, anims') \<Rightarrow>
          let s1 = s\<lparr>active_animations := anims'\<rparr>
          in case assign_leds (filter (\<lambda>(led_idx, color). led_idx < num_leds (config s))
                    animated_colors) (current_led_state s1) of
               (leds, Some e) \<Rightarrow> Raises e (s1\<lparr>current_led_state := leds\<rparr>)
             | (leds, None) \<Rightarrow>
                 let s2 = s1\<lparr>current_led_state := leds\<rparr>;
                     time_diff = current_time - last_update_time s2;
                     s3 = (if last_update_time s2 > 0 \<and> time_diff > 0
                           then s2\<lparr>update_frequency := 1 / time_diff\<rparr> else s2)
                 in Returns () (s3\<lparr>last_update_time := current_time\<rparr>))"

definition clear_all :: "led_controller \<Rightarrow> unit outcome" where
  "clear_all s =
     (case assign_leds (map (\<lambda>i. (i, (0, 0, 0))) [0..num_leds (config s) - 1])
             (current_led_state s) of
        (leds, Some e) \<Rightarrow> Raises e (s\<lparr>current_led_state := leds\<rparr>)
      | (leds, None) \<Rightarrow> Returns () (s\<lparr>current_led_state := leds\<rparr>))"

text \<open>\<open>initialize\<close> in simulation mode: any exception is caught and \<open>False\<close> returned.\<close>

definition initialize :: "led_controller \<Rightarrow> bool outcome" where
  "initialize s =
     (case clear_all s of
        Raises e s1 \<Rightarrow> Returns False s1
      | Returns _ s1 \<Rightarrow> Returns True (s1\<lparr>is_initialized := True\<rparr>))"

definition shutdown :: "led_controller \<Rightarrow> unit outcome" where
  "shutdown s =
     (case clear_all s of
        Raises e s1 \<Rightarrow> Raises e s1
      | Returns _ s1 \<Rightarrow> Returns () (s1\<lparr>is_initialized := False\<rparr>))"

definition set_brightness :: "rat \<Rightarrow> led_controller \<Rightarrow> led_controller" where
  "set_brightness b s =
     (let b' = max 0 (min 1 b) in s\<lparr>config := (config s)\<lparr>brightness := b'\<rparr>\<rparr>)"

definition set_color_scheme :: "string \<Rightarrow> led_controller \<Rightarrow> bool \<times> led_controller" where
  "set_color_scheme scheme_name s =
     (case set_scheme scheme_name (current_scheme s) of
        (ok, scheme) \<Rightarrow> (ok, s\<lparr>current_scheme := scheme\<rparr>))"

text \<open>The controller states that calls of the public methods can produce.\<close>

inductive reachable :: "led_controller \<Rightarrow> bool" where
  r_new: "reachable (new_controller cfg)"
| r_initialize: "reachable s \<Longrightarrow> reachable (state_after (initialize s))"
| r_shutdown: "reachable s \<Longrightarrow> reachable (state_after (shutdown s))"
| r_note_on: "reachable s \<Longrightarrow> reachable (state_after (note_on n v s))"
| r_note_off: "reachable s \<Longrightarrow> reachable (state_after (note_off now n fade_time s))"
| r_update_display: "reachable s \<Longrightarrow> reachable (state_after (update_display now s))"
| r_clear_all: "reachable s \<Longrightarrow> reachable (state_after (clear_all s))"
| r_set_brightness: "reachable s \<Longrightarrow> reachable (set_brightness b s)"
| r_set_color_scheme: "reachable s \<Longrightarrow> reachable (snd (set_color_scheme name s))"

section \<open>MIDI input\<close>

unbundle bit_operations_syntax

record midi_event =
  ev_type :: string
  ev_note :: "int option"
  ev_velocity :: "int option"
  ev_channel :: int
  ev_timestamp :: rat
  ev_control :: "int option"
  ev_value :: "int option"

text \<open>
  \<open>MIDIInputHandler._midi_callback\<close> on the bytes of one message. The result is the event
  handed to the registered callback, if any; \<open>has_callback\<close> says whether one is
  registered, \<open>current_time\<close> is \<open>time.time() * 1000\<close>. The status nibbles are
  \<open>0x90 = 144\<close>, \<open>0x80 = 128\<close>, \<open>0xB0 = 176\<close>, the masks \<open>0xF0 = 240\<close> and \<open>0x0F = 15\<close>.
\<close>

definition midi_callback :: "bool \<Rightarrow> int list \<Rightarrow> rat \<Rightarrow> midi_event option" where
  "midi_callback has_callback midi_bytes current_time =
     (if length midi_bytes < 2 then None
      else
        let status_byte = midi_bytes ! 0;
            message_type = status_byte AND 240;
            channel = status_byte AND 15;
            event =
              (if message_type = 144 then
                 let note = midi_bytes ! 1;
                     velocity = (if length midi_bytes > 2 then midi_bytes ! 2 else 64)
                 in if velocity > 0 then
                      Some \<lparr>ev_type = ''note_on'', ev_note = Some note, ev_velocity = Some velocity,
                            ev_channel = channel, ev_timestamp = current_time,
                            ev_control = None, ev_value = None\<rparr>
                    else
                      Some \<lparr>ev_type = ''note_off'', ev_note = Some note, ev_velocity = None,
                            ev_channel = channel, ev_timestamp = current_time,
                            ev_control = None, ev_value = None\<rparr>
               else if message_type = 128 then
                 let note = midi_bytes ! 1
                 in Some \<lparr>ev_type = ''note_off'', ev_note = Some note, ev_velocity = None,
                          ev_channel = channel, ev_timestamp = current_time,
                          ev_control = None, ev_value = None\<rparr>
               else if message_type = 176 then
                 let control = midi_bytes ! 1;
                     val = (if length midi_bytes > 2 then midi_bytes ! 2 else 0)
                 in Some \<lparr>ev_type = ''control_change'', ev_note = None, ev_velocity = None,
                          ev_channel = channel, ev_timestamp = current_time,
                          ev_control = Some control, ev_value = Some val\<rparr>
               else None)
        in if has_callback then event else None)"

definition simulate_note_on :: "bool \<Rightarrow> int \<Rightarrow> int \<Rightarrow> int \<Rightarrow> rat \<Rightarrow> midi_event option" where
  "simulate_note_on has_callback note velocity channel current_time =
     (let event = \<lparr>ev_type = ''note_on'', ev_note = Some note, ev_velocity = Some velocity,
                   ev_channel = channel, ev_timestamp = current_time,
                   ev_control = None, ev_value = None\<rparr>
      in if has_callback then Some event else None)"

definition simulate_note_off :: "bool \<Rightarrow> int \<Rightarrow> int \<Rightarrow> rat \<Rightarrow> midi_event option" where
  "simulate_note_off has_callback note channel current_time =
     (let event = \<lparr>ev_type = ''note_off'', ev_note = Some note, ev_velocity = None,
                   ev_channel = channel, ev_timestamp = current_time,
                   ev_control = None, ev_value = None\<rparr>
      in if has_callback then Some event else None)"

section \<open>The event handler of the web application\<close>

text \<open>
  The record \<open>socketio.emit\<close> sends for an event, and the application state: the global
  \<open>led_controller\<close> (\<open>None\<close> until created) and the records emitted so far.
\<close>

record emitted_event =
  em_type :: string
  em_note :: "int option"
  em_velocity :: "int option"
  em_timestamp :: rat

record app_state =
  led_ctrl :: "led_controller option"
  emitted :: "emitted_event list"

text \<open>\<open>event.velocity or 64\<close>.\<close>

definition velocity_or_64 :: "int option \<Rightarrow> int" where
  "velocity_or_64 v = (case v of None \<Rightarrow> 64 | Some x \<Rightarrow> if x = 0 then 64 else x)"

text \<open>
  The LED part of \<open>handle_midi_event\<close>: the controller afterwards and the exception that
  escaped, if any. \<open>note_off\<close> is called with its default \<open>fade_time = 0.5\<close>.
\<close>

definition led_dispatch ::
  "rat \<Rightarrow> midi_event \<Rightarrow> led_controller option \<Rightarrow> led_controller option \<times> py_error option" where
  "led_dispatch now event ctrl =
     (case ctrl of
        None \<Rightarrow> (None, None)
      | Some s \<Rightarrow>
          if is_initialized s then
            (case (ev_type event, ev_note event) of
               (t, Some n) \<Rightarrow>
                 if t = ''note_on'' then
                   (case note_on n (velocity_or_64 (ev_velocity event)) s of
                      Returns _ s' \<Rightarrow> (Some s', None)
                    | Raises e s' \<Rightarrow> (Some s', Some e))
                 else if t = ''note_off'' then
                   (case note_off now n (1 / 2) s of
                      Returns _ s' \<Rightarrow> (Some s', None)
                    | Raises e s' \<Rightarrow> (Some s', Some e))
                 else (Some s, None)
             | (t, None) \<Rightarrow> (Some s, None))
          else (Some s, None))"

text \<open>
  \<open>handle_midi_event\<close>: the emit follows the LED calls inside one \<open>try\<close>, so an exception
  from the controller skips it.
\<close>

definition handle_midi_event :: "rat \<Rightarrow> midi_event \<Rightarrow> app_state \<Rightarrow> app_state" where
  "handle_midi_event now event a =
     (case led_dispatch now event (led_ctrl a) of
        (ctrl', Some e) \<Rightarrow> a\<lparr>led_ctrl := ctrl'\<rparr>
      | (ctrl', None) \<Rightarrow>
          a\<lparr>led_ctrl := ctrl',
            emitted := emitted a @
              [\<lparr>em_type = ev_type event, em_note = ev_note event,
                em_velocity = ev_velocity event, em_timestamp = ev_timestamp event\<rparr>]\<rparr>)"

text \<open>The defaults of the \<open>LEDConfig\<close> dataclass.\<close>

definition default_config :: led_config where
  "default_config =
     \<lparr>num_leds = 88, pin = 18, brightness = 4 / 5, auto_write = False, pixel_order = ''GRB''\<rparr>"

section \<open>Auxiliary notions\<close>

text \<open>
  What the methods of the controller maintain: the map is the one built at construction,
  the display state has one slot per LED, the animation table has one entry per note, and
  each entry is a fade with a positive duration at position \<open>note - 21\<close>.
\<close>

definition controller_inv :: "led_controller \<Rightarrow> bool" where
  "controller_inv s \<longleftrightarrow>
     note_to_led_map s = create_note_to_led_mapping (num_leds (config s)) \<and>
     length (current_led_state s) = nat (num_leds (config s)) \<and>
     distinct (map fst (active_animations s)) \<and>
     (\<forall>(n, a) \<in> set (active_animations s).
        led_index a = n - 21 \<and> anim_type a = ''fade_out'' \<and> 0 < duration a)"

definition example_ready :: led_controller where
  "example_ready = state_after (initialize (new_controller default_config))"


text \<open>
  For one tick at time \<open>t\<close>: whether an animation has run out, the colour it shows, its
  effect on the output dictionary, and the tables on which the tick raises no
  \<open>ZeroDivisionError\<close>. \<open>example_fade\<close> is the table after one half-second fade from red is
  registered for note 60 at time 0.
\<close>

definition completed :: "rat \<Rightarrow> animation \<Rightarrow> bool" where
  "completed t a \<longleftrightarrow> anim_type a = ''fade_out'' \<and> 1 \<le> (t - start_time a) / duration a"

definition frame_color :: "rat \<Rightarrow> animation \<Rightarrow> color" where
  "frame_color t a =
     (if 1 \<le> (t - start_time a) / duration a then (0, 0, 0)
      else scale_color (start_color a) (1 - (t - start_time a) / duration a))"

definition frame_update :: "rat \<Rightarrow> int \<times> animation \<Rightarrow> (int \<times> color) list \<Rightarrow> (int \<times> color) list" where
  "frame_update t = (\<lambda>(n, a) cc.
     if anim_type a = ''fade_out'' then AList.update (led_index a) (frame_color t a) cc else cc)"

definition may_tick :: "animations \<Rightarrow> bool" where
  "may_tick anims \<longleftrightarrow> (\<forall>(n, a) \<in> set anims. anim_type a = ''fade_out'' \<longrightarrow> duration a \<noteq> 0)"



section \<open>Arithmetic of truncation\<close>


lemma py_int_quot: "0 \<le> a \<Longrightarrow> 0 < b \<Longrightarrow> py_int (of_int a / of_int b) = a div b"
  by (simp add: py_int_def floor_divide_of_int_eq not_less[symmetric] divide_less_0_iff)

lemma py_int_numeral: "py_int (numeral k) = numeral k" "py_int 0 = 0" "py_int 1 = 1"
  by (simp_all add: py_int_def)


section \<open>The velocity scheme\<close>

lemma vnorm_lt_half: "(rat_of_int v / 127 < 1 / 2) = (v < 64)"
proof -
  have "(rat_of_int v / 127 < 1 / 2) = (rat_of_int (2 * v) < rat_of_int 127)"
    by (simp add: field_simps)
  also have "\<dots> = (2 * v < 127)"
    by (simp only: of_int_less_iff)
  also have "\<dots> = (v < 64)" by arith
  finally show ?thesis .
qed

lemma blue_to_cyan_closed:
  assumes "0 \<le> v"
  shows "velocity_blue_to_cyan (of_int v / 127) = (0, (510 * v) div 127, 255)"
proof -
  have "rat_of_int v / 127 * 2 * 255 = of_int (510 * v) / of_int 127" by simp
  then show ?thesis
    using assms by (simp only: velocity_blue_to_cyan_def Let_def py_int_quot)
qed

lemma cyan_to_red_closed:
  assumes "64 \<le> v" "v \<le> 127"
  shows "velocity_cyan_to_red (of_int v / 127) =
     ((510 * v - 32385) div 127, (64770 - 510 * v) div 127, (64770 - 510 * v) div 127)"
proof -
  have a: "(rat_of_int v / 127 - 1 / 2) * 2 * 255 = of_int (510 * v - 32385) / of_int 127"
    by (simp add: field_simps)
  have b: "(1 - (rat_of_int v / 127 - 1 / 2) * 2) * 255 = of_int (64770 - 510 * v) / of_int 127"
    by (simp add: field_simps)
  have "0 \<le> 510 * v - 32385" "0 \<le> 64770 - 510 * v" using assms by arith+
  then show ?thesis
    by (simp only: velocity_cyan_to_red_def Let_def a b py_int_quot)
qed

text \<open>On MIDI velocities the scheme is integer arithmetic.\<close>

lemma velocity_scheme_closed:
  assumes "0 \<le> v" "v \<le> 127"
  shows "velocity_scheme n v =
   (if v < 64 then (0, (510 * v) div 127, 255)
    else ((510 * v - 32385) div 127, (64770 - 510 * v) div 127, (64770 - 510 * v) div 127))"
  using assms
  by (simp add: velocity_scheme_def vnorm_lt_half blue_to_cyan_closed cyan_to_red_closed)

lemma velocity_scheme_step:
  assumes "0 \<le> v" "v < 127"
  shows "max_channel_diff (velocity_scheme n v) (velocity_scheme n (v + 1)) \<le> 5"
proof -
  consider "v < 63" | "v = 63" | "64 \<le> v" by arith
  then show ?thesis
  proof cases
    case 1
    then show ?thesis using assms
      by (simp add: velocity_scheme_closed max_channel_diff_def)
  next
    case 2
    then show ?thesis
      by (simp add: velocity_scheme_closed max_channel_diff_def)
  next
    case 3
    then show ?thesis using assms
      by (simp add: velocity_scheme_closed max_channel_diff_def) arith
  qed
qed

lemma velocity_midpoint:
  "velocity_blue_to_cyan (1 / 2) = (0, 255, 255)" "velocity_cyan_to_red (1 / 2) = (0, 255, 255)"
  by (simp_all add: velocity_blue_to_cyan_def velocity_cyan_to_red_def py_int_numeral)

lemma velocity_scheme_63_64:
  "velocity_scheme n 63 = (0, 252, 255)" "velocity_scheme n 64 = (2, 252, 252)"
  "velocity_scheme n 65 = (6, 248, 248)"
  by (simp_all add: velocity_scheme_closed)

text \<open>
  C2, as stated: the end colours are right, but a velocity step changes a channel by more
  than one unit; from 63 to 64 red rises by 2 and blue falls by 3.
\<close>

theorem C2_velocity_unit_step_counterexample:
  "velocity_scheme 60 63 = (0, 252, 255) \<and> velocity_scheme 60 64 = (2, 252, 252) \<and>
   \<not> max_channel_diff (velocity_scheme 60 63) (velocity_scheme 60 64) \<le> 1"
  by (simp add: velocity_scheme_63_64 max_channel_diff_def)

text \<open>
  C2, amended: velocity 0 gives (0, 0, 255) and velocity 127 gives (255, 0, 0); the two
  branch formulas meet at normalised velocity 0.5, both giving (0, 255, 255); and between
  adjacent velocities no channel moves by more than 5 units (each branch has slope
  510/127 per step), by at most 3 across the step from 63 to 64.
\<close>

theorem C2_velocity_scheme_endpoints_and_steps:
  "velocity_scheme n 0 = (0, 0, 255) \<and> velocity_scheme n 127 = (255, 0, 0) \<and>
   velocity_blue_to_cyan (1 / 2) = velocity_cyan_to_red (1 / 2) \<and>
   max_channel_diff (velocity_scheme n 63) (velocity_scheme n 64) = 3 \<and>
   (\<forall>v. 0 \<le> v \<and> v < 127 \<longrightarrow>
        max_channel_diff (velocity_scheme n v) (velocity_scheme n (v + 1)) \<le> 5)"
proof -
  have "velocity_scheme n 0 = (0, 0, 255)" "velocity_scheme n 127 = (255, 0, 0)"
    by (simp_all add: velocity_scheme_closed)
  moreover have "max_channel_diff (velocity_scheme n 63) (velocity_scheme n 64) = 3"
    by (simp add: velocity_scheme_63_64 max_channel_diff_def)
  ultimately show ?thesis
    using velocity_scheme_step by (simp add: velocity_midpoint)
qed

theorem C2_velocity_scheme_witness:
  "velocity_scheme 60 0 = (0, 0, 255) \<and> velocity_scheme 60 127 = (255, 0, 0) \<and>
   velocity_blue_to_cyan (1 / 2) = velocity_cyan_to_red (1 / 2) \<and>
   (0::int) \<le> 126 \<and> (126::int) < 127 \<and>
   max_channel_diff (velocity_scheme 60 126) (velocity_scheme 60 (126 + 1)) \<le> 5"
proof -
  note t = C2_velocity_scheme_endpoints_and_steps [of 60]
  from t have "\<forall>v. 0 \<le> v \<and> v < 127 \<longrightarrow>
      max_channel_diff (velocity_scheme 60 v) (velocity_scheme 60 (v + 1)) \<le> 5"
    by blast
  then have "0 \<le> (126::int) \<and> (126::int) < 127 \<longrightarrow>
      max_channel_diff (velocity_scheme 60 126) (velocity_scheme 60 (126 + 1)) \<le> 5"
    by (rule spec)
  with t show ?thesis by simp
qed

section \<open>The fire and ocean schemes\<close>





















section \<open>Brightness\<close>

text \<open>
  C4, as stated: a brightness of 1.5 is not rejected; the stored value changes from the
  configured 0.8 to 1.
\<close>

theorem C4_set_brightness_overwrites_counterexample:
  "brightness (config (new_controller default_config)) = 4 / 5 \<and>
   brightness (config (set_brightness (3 / 2) (new_controller default_config))) = 1"
  by (simp add: set_brightness_def new_controller_def default_config_def)

text \<open>
  C4, amended: a brightness outside [0, 1] is clamped to the nearer bound, 0 for a negative
  value and 1 for a value above 1, and the clamped value is stored in place of the previous
  brightness; nothing else in the controller changes.
\<close>

theorem C4_set_brightness_clamps:
  assumes "b < 0 \<or> 1 < b"
  shows "set_brightness b s = s\<lparr>config := (config s)\<lparr>brightness := (if b < 0 then 0 else 1)\<rparr>\<rparr>"
  using assms by (auto simp: set_brightness_def)

theorem C4_set_brightness_clamps_witness:
  "((3 / 2 :: rat) < 0 \<or> (1 :: rat) < 3 / 2) \<and>
   set_brightness (3 / 2) (new_controller default_config) =
     (new_controller default_config)\<lparr>config := (config (new_controller default_config))\<lparr>brightness := 1\<rparr>\<rparr>"
proof -
  have h: "(3 / 2 :: rat) < 0 \<or> (1 :: rat) < 3 / 2" by simp
  from C4_set_brightness_clamps [OF h, of "new_controller default_config"] h
  show ?thesis by simp
qed

section \<open>Ingest\<close>

text \<open>A Note On message that \<open>_midi_callback\<close> turns into a \<open>note_on\<close> event has velocity above 0.\<close>

lemma midi_callback_note_on_velocity:
  assumes "midi_callback has_callback midi_bytes t = Some e" "ev_type e = ''note_on''"
  shows "\<exists>v. ev_velocity e = Some v \<and> 0 < v"
  using assms
  by (auto simp: midi_callback_def Let_def split: if_splits)

lemma midi_callback_zero_velocity:
  assumes "status AND 240 = 144"
  shows "midi_callback True [status, n, 0] t =
     Some \<lparr>ev_type = ''note_off'', ev_note = Some n, ev_velocity = None,
           ev_channel = status AND 15, ev_timestamp = t, ev_control = None, ev_value = None\<rparr>"
  using assms by (simp add: midi_callback_def)

text \<open>
  C8: \<open>simulate_note_on\<close> hands the callback a \<open>note_on\<close> event with velocity 0, which the
  handler of the application then plays with velocity 64.
\<close>

theorem C8_simulate_note_on_zero_velocity:
  "simulate_note_on True n 0 ch t =
     Some \<lparr>ev_type = ''note_on'', ev_note = Some n, ev_velocity = Some 0,
           ev_channel = ch, ev_timestamp = t, ev_control = None, ev_value = None\<rparr> \<and>
   velocity_or_64 (Some 0) = 64"
  by (simp add: simulate_note_on_def velocity_or_64_def)

section \<open>Events the controller ignores\<close>

text \<open>
  C10: while \<open>is_initialized\<close> is false, \<open>note_on\<close> and \<open>note_off\<close> return \<open>False\<close> without
  raising and leave the whole controller, display state and animation table included, as
  it was.
\<close>

theorem C10_uninitialized_ignored:
  assumes "\<not> is_initialized s"
  shows "note_on n v s = Returns False s \<and> note_off now n fade_time s = Returns False s"
  using assms by (simp add: note_on_def note_off_def)

theorem C10_uninitialized_ignored_witness:
  "\<not> is_initialized (new_controller default_config) \<and>
   note_on 60 80 (new_controller default_config) = Returns False (new_controller default_config) \<and>
   note_off 0 60 (1 / 2) (new_controller default_config) =
     Returns False (new_controller default_config)"
proof -
  have h: "\<not> is_initialized (new_controller default_config)"
    by (simp add: new_controller_def)
  from C10_uninitialized_ignored [OF h] h show ?thesis by blast
qed

text \<open>
  C9: a \<open>note_on\<close> event whose note is not in the note-to-LED map leaves the controller,
  and so every slot of the display state, unchanged, and its record is appended to what
  is emitted to the web clients.
\<close>

theorem C9_unmapped_note_on_broadcast:
  assumes "ev_type e = ''note_on''" "ev_note e = Some n"
    and "case led_ctrl a of None \<Rightarrow> True | Some s \<Rightarrow> map_of (note_to_led_map s) n = None"
  shows "handle_midi_event now e a =
     a\<lparr>emitted := emitted a @
         [\<lparr>em_type = ev_type e, em_note = ev_note e, em_velocity = ev_velocity e,
           em_timestamp = ev_timestamp e\<rparr>]\<rparr>"
  using assms
  by (auto simp: handle_midi_event_def led_dispatch_def note_on_def split: option.splits)

section \<open>The note-to-LED map\<close>

lemma zip_note_range: "zip [0..87] [21..108] = map (\<lambda>i. (i, i + 21)) [0..87]"
  by code_simp

lemma map_of_fold_mapping:
  "map_of (fold (\<lambda>(i, note) mapping. if i < k then AList.update note i mapping else mapping)
             (map (\<lambda>i. (i, i + 21)) xs) m) (note :: int) =
     (if note - 21 \<in> set xs \<and> note - 21 < k then Some (note - 21) else map_of m note)"
proof (induction xs arbitrary: m)
  case Nil
  then show ?case by simp
next
  case (Cons x xs)
  show ?case
    by (simp add: Cons.IH update_conv')
qed

lemma map_of_create_mapping:
  "map_of (create_note_to_led_mapping k) note =
     (if 21 \<le> note \<and> note \<le> 108 \<and> note - 21 < k then Some (note - 21) else None)"
  unfolding create_note_to_led_mapping_def zip_note_range map_of_fold_mapping
  by auto

text \<open>The notes without a position: those off the keyboard or beyond the strip.\<close>

lemma unmapped_iff:
  "map_of (create_note_to_led_mapping k) note = None \<longleftrightarrow>
     note < 21 \<or> 108 < note \<or> k \<le> note - 21"
  by (auto simp: map_of_create_mapping)

section \<open>Python lists\<close>

lemma py_index_bound: "py_index xs i = Some k \<Longrightarrow> k < length xs"
  by (auto simp: py_index_def split: if_splits)


lemma length_py_setitem: "py_setitem xs i v = Inr ys \<Longrightarrow> length ys = length xs"
  by (auto simp: py_setitem_def split: option.splits)

lemma length_assign_leds: "length (fst (assign_leds cs leds)) = length leds"
proof (induction cs arbitrary: leds)
  case Nil
  then show ?case by simp
next
  case (Cons ic cs)
  obtain i c where ic: "ic = (i, c)" by (cases ic)
  show ?case
    by (cases "py_setitem leds i c") (simp_all add: ic Cons.IH length_py_setitem)
qed

section \<open>Dictionaries\<close>

lemma set_update_cases:
  "(k', v') \<in> set (AList.update k v al) \<Longrightarrow> (k', v') = (k, v) \<or> (k', v') \<in> set al"
  by (induction al) (auto split: if_splits)

lemma fold_delete_filter: "fold AList.delete ks al = filter (\<lambda>(k, v). k \<notin> set ks) al"
proof (induction ks arbitrary: al)
  case Nil
  then show ?case by simp
next
  case (Cons k ks)
  have "fold AList.delete (k # ks) al = filter (\<lambda>(k', v). k' \<notin> set ks) (AList.delete k al)"
    by (simp add: Cons.IH)
  also have "\<dots> = filter (\<lambda>(k', v). k' \<notin> set (k # ks)) al"
    unfolding AList.delete_eq filter_filter by (rule filter_cong) auto
  finally show ?case .
qed

lemma distinct_fold_delete: "distinct (map fst al) \<Longrightarrow> distinct (map fst (fold AList.delete ks al))"
  by (simp add: fold_delete_filter distinct_map_filter)



section \<open>An invariant of the controller\<close>

lemma inv_new: "controller_inv (new_controller cfg)"
  by (simp add: controller_inv_def new_controller_def)

lemma inv_leds:
  assumes "controller_inv s" "length leds = length (current_led_state s)"
  shows "controller_inv (s\<lparr>current_led_state := leds\<rparr>)"
  using assms by (simp add: controller_inv_def)

lemma inv_set_led_color:
  assumes "controller_inv s"
  shows "controller_inv (state_after (set_led_color p c s))"
proof (cases "py_setitem (current_led_state s) p c")
  case (Inl e)
  with assms show ?thesis by (simp add: set_led_color_def)
next
  case (Inr leds)
  with assms show ?thesis
    by (simp add: set_led_color_def inv_leds length_py_setitem)
qed

lemma inv_counter:
  "controller_inv (s\<lparr>commands_processed := k\<rparr>) = controller_inv s"
  by (simp add: controller_inv_def)

lemma inv_remove_animation:
  assumes "controller_inv s"
  shows "controller_inv (s\<lparr>active_animations := remove_animation n (active_animations s)\<rparr>)"
  using assms
  by (auto simp: controller_inv_def remove_animation_def AList.delete_eq distinct_map_filter)

lemma inv_add_fade_out:
  assumes "controller_inv s" "0 < fade_time"
  shows "controller_inv
           (s\<lparr>active_animations := add_fade_out now n (n - 21) c fade_time (active_animations s)\<rparr>)"
  using assms
  by (auto simp: controller_inv_def add_fade_out_def distinct_update dest!: set_update_cases)

lemma inv_map_value:
  assumes "controller_inv s" "map_of (note_to_led_map s) n = Some p"
  shows "p = n - 21 \<and> 0 \<le> p \<and> p < num_leds (config s) \<and> p < int (length (current_led_state s))"
  using assms by (auto simp: controller_inv_def map_of_create_mapping split: if_splits)

lemma inv_note_on:
  assumes "controller_inv s"
  shows "controller_inv (state_after (note_on n v s))"
proof (cases "is_initialized s")
  case False
  with assms show ?thesis by (simp add: note_on_def)
next
  case True
  show ?thesis
  proof (cases "map_of (note_to_led_map s) n")
    case None
    with assms True show ?thesis by (simp add: note_on_def)
  next
    case (Some p)
    let ?s1 = "s\<lparr>active_animations := remove_animation n (active_animations s)\<rparr>"
    let ?r = "set_led_color p (get_color (current_scheme s) n v) ?s1"
    have "controller_inv (state_after ?r)"
      using assms by (intro inv_set_led_color inv_remove_animation)
    then show ?thesis
      using True Some by (cases ?r) (simp_all add: note_on_def inv_counter)
  qed
qed

lemma inv_note_off:
  assumes "controller_inv s"
  shows "controller_inv (state_after (note_off now n fade_time s))"
proof (cases "is_initialized s")
  case False
  with assms show ?thesis by (simp add: note_off_def)
next
  case True
  show ?thesis
  proof (cases "map_of (note_to_led_map s) n")
    case None
    with assms True show ?thesis by (simp add: note_off_def)
  next
    case (Some p)
    then have p: "p = n - 21" using assms inv_map_value by blast
    show ?thesis
    proof (cases "py_getitem (current_led_state s) p")
      case (Inl e)
      with assms True Some show ?thesis by (simp add: note_off_def)
    next
      case (Inr c)
      show ?thesis
      proof (cases "0 < fade_time")
        case pos: True
        then show ?thesis
          using assms True Some Inr p
          by (simp add: note_off_def inv_counter inv_add_fade_out)
      next
        case neg: False
        let ?r = "set_led_color p (0, 0, 0) s"
        have "controller_inv (state_after ?r)"
          using assms by (rule inv_set_led_color)
        then show ?thesis
          using True Some Inr neg by (cases ?r) (simp_all add: note_off_def inv_counter)
      qed
    qed
  qed
qed

lemma get_current_colors_table:
  assumes "get_current_colors t anims = Inr (out, anims')"
  shows "\<exists>ks. anims' = filter (\<lambda>(k, v). k \<notin> set ks) anims"
  using assms
  by (auto simp: get_current_colors_def fold_delete_filter split: sum.splits)

lemma inv_update_display:
  assumes "controller_inv s"
  shows "controller_inv (state_after (update_display now s))"
proof (cases "is_initialized s")
  case False
  with assms show ?thesis by (simp add: update_display_def)
next
  case True
  show ?thesis
  proof (cases "get_current_colors now (active_animations s)")
    case (Inl e)
    with assms True show ?thesis by (simp add: update_display_def)
  next
    case (Inr r)
    obtain out anims' where r: "r = (out, anims')" by (cases r)
    from Inr r obtain ks where ks: "anims' = filter (\<lambda>(k, v). k \<notin> set ks) (active_animations s)"
      using get_current_colors_table by blast
    let ?s1 = "s\<lparr>active_animations := anims'\<rparr>"
    have s1: "controller_inv ?s1"
      using assms by (auto simp: controller_inv_def ks distinct_map_filter)
    let ?a = "assign_leds (filter (\<lambda>(led_idx, color). led_idx < num_leds (config s)) out)
                (current_led_state s)"
    obtain leds err where a: "?a = (leds, err)" by (cases ?a)
    have len: "length leds = length (current_led_state s)"
      using length_assign_leds [of "filter (\<lambda>(led_idx, color). led_idx < num_leds (config s)) out"
          "current_led_state s"] a by simp
    have s2: "controller_inv (?s1\<lparr>current_led_state := leds\<rparr>)"
      using s1 len by (simp add: inv_leds)
    show ?thesis
    proof (cases err)
      case None
      with s2 True Inr r a show ?thesis
        by (simp add: update_display_def Let_def controller_inv_def)
    next
      case (Some e)
      with s2 True Inr r a show ?thesis
        by (simp add: update_display_def)
    qed
  qed
qed

lemma inv_clear_all:
  assumes "controller_inv s"
  shows "controller_inv (state_after (clear_all s))"
proof -
  let ?a = "assign_leds (map (\<lambda>i. (i, (0, 0, 0))) [0..num_leds (config s) - 1])
              (current_led_state s)"
  obtain leds err where a: "?a = (leds, err)" by (cases ?a)
  have "length leds = length (current_led_state s)"
    using length_assign_leds [of "map (\<lambda>i. (i, (0, 0, 0))) [0..num_leds (config s) - 1]"
        "current_led_state s"] a by simp
  then have "controller_inv (s\<lparr>current_led_state := leds\<rparr>)"
    using assms by (simp add: inv_leds)
  then show ?thesis
    using a by (cases err) (simp_all add: clear_all_def)
qed

lemma inv_flag: "controller_inv (s\<lparr>is_initialized := b\<rparr>) = controller_inv s"
  by (simp add: controller_inv_def)

lemma inv_initialize:
  assumes "controller_inv s"
  shows "controller_inv (state_after (initialize s))"
  using inv_clear_all [OF assms]
  by (cases "clear_all s") (simp_all add: initialize_def inv_flag)

lemma inv_shutdown:
  assumes "controller_inv s"
  shows "controller_inv (state_after (shutdown s))"
  using inv_clear_all [OF assms]
  by (cases "clear_all s") (simp_all add: shutdown_def inv_flag)

lemma inv_set_brightness: "controller_inv s \<Longrightarrow> controller_inv (set_brightness b s)"
  by (simp add: controller_inv_def set_brightness_def)

lemma inv_set_color_scheme: "controller_inv s \<Longrightarrow> controller_inv (snd (set_color_scheme name s))"
  by (simp add: controller_inv_def set_color_scheme_def split: prod.splits)

lemma reachable_inv: "reachable s \<Longrightarrow> controller_inv s"
proof (induction rule: reachable.induct)
  case (r_new cfg)
  show ?case by (rule inv_new)
next
  case (r_initialize s)
  then show ?case by (simp add: inv_initialize)
next
  case (r_shutdown s)
  then show ?case by (simp add: inv_shutdown)
next
  case (r_note_on s n v)
  then show ?case by (simp add: inv_note_on)
next
  case (r_note_off s now n fade_time)
  then show ?case by (simp add: inv_note_off)
next
  case (r_update_display s now)
  then show ?case by (simp add: inv_update_display)
next
  case (r_clear_all s)
  then show ?case by (simp add: inv_clear_all)
next
  case (r_set_brightness s b)
  then show ?case by (simp add: inv_set_brightness)
next
  case (r_set_color_scheme s name)
  then show ?case by (simp add: inv_set_color_scheme)
qed


section \<open>Example states\<close>



lemma example_ready_facts:
  "is_initialized example_ready" "map_of (note_to_led_map example_ready) 20 = None"
  by code_simp+


section \<open>One animation per position\<close>




section \<open>Note off\<close>



text \<open>
  C9 at note 20, below the piano range: the event is broadcast and nothing else changes.
\<close>

theorem C9_unmapped_note_on_broadcast_witness:
  "handle_midi_event 7
     \<lparr>ev_type = ''note_on'', ev_note = Some 20, ev_velocity = Some 80, ev_channel = 0,
      ev_timestamp = 7, ev_control = None, ev_value = None\<rparr>
     \<lparr>led_ctrl = Some example_ready, emitted = []\<rparr> =
   \<lparr>led_ctrl = Some example_ready,
    emitted = [\<lparr>em_type = ''note_on'', em_note = Some 20, em_velocity = Some 80,
                em_timestamp = 7\<rparr>]\<rparr>"
  using C9_unmapped_note_on_broadcast [of
      "\<lparr>ev_type = ''note_on'', ev_note = Some 20, ev_velocity = Some 80, ev_channel = 0,
        ev_timestamp = 7, ev_control = None, ev_value = None\<rparr>" 20
      "\<lparr>led_ctrl = Some example_ready, emitted = []\<rparr>" 7]
  by (simp add: example_ready_facts)

section \<open>The animation tick\<close>

lemma animation_loop_eq:
  assumes "may_tick anims"
  shows "animation_loop t anims tr cc =
     Inr (tr @ map fst (filter (\<lambda>(n, a). completed t a) anims), fold (frame_update t) anims cc)"
  using assms
proof (induction anims arbitrary: tr cc)
  case Nil
  then show ?case by simp
next
  case (Cons na anims)
  obtain n a where na: "na = (n, a)" by (cases na)
  from Cons.prems have rest: "may_tick anims" by (simp add: may_tick_def)
  from Cons.prems na have d: "anim_type a = ''fade_out'' \<Longrightarrow> duration a \<noteq> 0"
    by (simp add: may_tick_def)
  show ?case
    using d by (simp add: na Cons.IH [OF rest] completed_def frame_update_def frame_color_def Let_def)
qed


lemma get_current_colors_eq:
  assumes "may_tick anims"
  shows "get_current_colors t anims =
     Inr (fold (frame_update t) anims [],
          filter (\<lambda>(k, v). k \<notin> fst ` {(n, a). (n, a) \<in> set anims \<and> completed t a}) anims)"
proof -
  have "set (map fst (filter (\<lambda>(n, a). completed t a) anims)) =
        fst ` {(n, a). (n, a) \<in> set anims \<and> completed t a}"
    by auto
  then show ?thesis
    by (simp add: get_current_colors_def animation_loop_eq [OF assms] fold_delete_filter)
qed







section \<open>Ticks at one instant\<close>





section \<open>The course of a fade\<close>




text \<open>
  Every animation in a reachable controller state meets the conditions above: the table
  has one entry per note, each a fade with a positive duration, and no two notes share a
  position.
\<close>

lemma reachable_fade_conditions:
  assumes "reachable s" "(n, a) \<in> set (active_animations s)"
  shows "distinct (map fst (active_animations s))"
    and "anim_type a = ''fade_out''" and "0 < duration a"
    and "\<forall>(n', a') \<in> set (active_animations s). n' \<noteq> n \<longrightarrow> led_index a' \<noteq> led_index a"
    and "\<forall>(n', a') \<in> set (active_animations s). anim_type a' = ''fade_out'' \<longrightarrow> duration a' \<noteq> 0"
proof -
  have inv: "controller_inv s" using assms(1) by (rule reachable_inv)
  show "distinct (map fst (active_animations s))"
    using inv by (simp add: controller_inv_def)
  show "anim_type a = ''fade_out''" "0 < duration a"
    using inv assms(2) by (auto simp: controller_inv_def)
  have "led_index a = n - 21"
    using inv assms(2) by (auto simp: controller_inv_def)
  then show "\<forall>(n', a') \<in> set (active_animations s). n' \<noteq> n \<longrightarrow> led_index a' \<noteq> led_index a"
    using inv by (auto simp: controller_inv_def)
  show "\<forall>(n', a') \<in> set (active_animations s). anim_type a' = ''fade_out'' \<longrightarrow> duration a' \<noteq> 0"
    using inv by (auto simp: controller_inv_def)
qed

text \<open>So the display update of a reachable controller never raises in the animator.\<close>

lemma reachable_tick_returns:
  assumes "reachable s"
  shows "\<exists>out anims'. get_current_colors t (active_animations s) = Inr (out, anims')"
proof -
  have "controller_inv s" using assms by (rule reachable_inv)
  then have "may_tick (active_animations s)"
    by (auto simp: controller_inv_def may_tick_def)
  then show ?thesis by (simp add: get_current_colors_eq)
qed

end
